theory Spec2Isabelle
  imports Complex_Main "HOL-Library.Sublist"
begin

section \<open>JavaScript values shared by both source files\<close>

text \<open>
  A JavaScript string is a sequence of UTF-16 code units; a code unit is modelled as a
  natural number. \<open>str\<close> turns an ASCII literal of the source into that representation.
\<close>

type_synonym jsstring = "nat list"

definition str :: "string \<Rightarrow> jsstring" where
  "str s = map of_char s"

text \<open>A value that may be \<^verbatim>\<open>undefined\<close> or \<^verbatim>\<open>null\<close>.\<close>

datatype 'a jsopt = Undefined | Null | Val 'a

text \<open>
  Number-to-string conversion as a template literal performs it on an integer
  (\<^verbatim>\<open>`${n}`\<close>): decimal digits, a leading minus sign for a negative number.
\<close>

fun show_nat :: "nat \<Rightarrow> jsstring" where
  "show_nat n = (if n < 10 then [48 + n] else show_nat (n div 10) @ [48 + n mod 10])"

declare show_nat.simps [simp del]

definition show_int :: "int \<Rightarrow> jsstring" where
  "show_int i = (if i < 0 then 45 # show_nat (nat (- i)) else show_nat (nat i))"

text \<open>The number that a string of decimal digits denotes.\<close>

definition digit_value :: "jsstring \<Rightarrow> nat" where
  "digit_value ds = foldl (\<lambda>a d. 10 * a + (d - 48)) 0 ds"

text \<open>
  A JavaScript number is an IEEE double: a finite value, modelled by the rational number
  it denotes, one of the two infinities, or NaN.
\<close>

datatype jsnumber = Finite rat | PosInfinity | NegInfinity | NaN

text \<open>The comparisons \<^verbatim>\<open>x > 0\<close> and \<^verbatim>\<open>x <= 0\<close>; both are false for NaN.\<close>

definition gt_zero :: "jsnumber \<Rightarrow> bool" where
  "gt_zero x =
     (case x of Finite r \<Rightarrow> r > 0 | PosInfinity \<Rightarrow> True | NegInfinity \<Rightarrow> False | NaN \<Rightarrow> False)"

definition le_zero :: "jsnumber \<Rightarrow> bool" where
  "le_zero x =
     (case x of Finite r \<Rightarrow> r \<le> 0 | PosInfinity \<Rightarrow> False | NegInfinity \<Rightarrow> True | NaN \<Rightarrow> False)"

text \<open>
  Number-to-string conversion of a number, as a template literal performs it. An integer
  of absolute value at most \<open>2\<^sup>5\<^sup>3 - 1\<close> (a safe integer) is printed in decimal digits.
  Every other number is printed rounded, with a fraction, in exponent notation or as a
  word (\<^verbatim>\<open>1e+21\<close>, \<^verbatim>\<open>Infinity\<close>, \<^verbatim>\<open>NaN\<close>); that text is left to the
  parameter \<open>other\<close>.
\<close>

definition safe_integer :: "rat \<Rightarrow> bool" where
  "safe_integer r = (of_int \<lfloor>r\<rfloor> = r \<and> \<bar>r\<bar> \<le> 2 ^ 53 - 1)"

definition number_text :: "(jsnumber \<Rightarrow> jsstring) \<Rightarrow> jsnumber \<Rightarrow> jsstring" where
  "number_text other x =
     (case x of
        Finite r \<Rightarrow> if safe_integer r then show_int \<lfloor>r\<rfloor> else other x
      | _ \<Rightarrow> other x)"

text \<open>
  \<^verbatim>\<open>String.prototype.trim\<close> removes leading and trailing WhiteSpace and LineTerminator
  code units (ECMAScript): TAB, LF, VT, FF, CR, SP, NBSP, U+1680, U+2000..U+200A, U+2028,
  U+2029, U+202F, U+205F, U+3000 and U+FEFF.
\<close>

definition js_whitespace :: "nat \<Rightarrow> bool" where
  "js_whitespace c =
     (c \<in> {9, 10, 11, 12, 13, 32, 160, 5760, 8232, 8233, 8239, 8287, 12288, 65279}
      \<or> (8192 \<le> c \<and> c \<le> 8202))"

definition trim :: "jsstring \<Rightarrow> jsstring" where
  "trim s = rev (dropWhile js_whitespace (rev (dropWhile js_whitespace s)))"

text \<open>\<^verbatim>\<open>s.startsWith(p)\<close> and \<^verbatim>\<open>s.includes(p)\<close>.\<close>

definition startsWith :: "jsstring \<Rightarrow> jsstring \<Rightarrow> bool" where
  "startsWith s p = prefix p s"

fun js_includes :: "jsstring \<Rightarrow> jsstring \<Rightarrow> bool" where
  "js_includes [] p = (p = [])"
| "js_includes (c # cs) p = (prefix p (c # cs) \<or> js_includes cs p)"

section \<open>plugins/visual-edits/dev-server-setup.js\<close>

subsection \<open>The origin pattern\<close>

text \<open>
  Regular expressions with the constructs the source's pattern
  \<^verbatim>\<open>/^https?:\/\/(localhost|127\.0\.0\.1)(:\d+)?$/\<close> uses. The pattern is anchored at both
  ends and has no flags, so \<^verbatim>\<open>origin.match\<close> succeeds exactly when the whole string
  matches; \<open>full_match\<close> decides that by derivatives.
\<close>

datatype rexp =
    RNone
  | REps
  | RChar nat
  | RDigit
  | RSeq rexp rexp
  | RAlt rexp rexp
  | RStar rexp

definition is_digit :: "nat \<Rightarrow> bool" where
  "is_digit c = (48 \<le> c \<and> c \<le> 57)"

definition ROpt :: "rexp \<Rightarrow> rexp" where
  "ROpt r = RAlt r REps"

definition RPlus :: "rexp \<Rightarrow> rexp" where
  "RPlus r = RSeq r (RStar r)"

fun RLit :: "jsstring \<Rightarrow> rexp" where
  "RLit [] = REps"
| "RLit (c # cs) = RSeq (RChar c) (RLit cs)"

fun nullable :: "rexp \<Rightarrow> bool" where
  "nullable RNone = False"
| "nullable REps = True"
| "nullable (RChar c) = False"
| "nullable RDigit = False"
| "nullable (RSeq r s) = (nullable r \<and> nullable s)"
| "nullable (RAlt r s) = (nullable r \<or> nullable s)"
| "nullable (RStar r) = True"

fun rderiv :: "nat \<Rightarrow> rexp \<Rightarrow> rexp" where
  "rderiv a RNone = RNone"
| "rderiv a REps = RNone"
| "rderiv a (RChar c) = (if a = c then REps else RNone)"
| "rderiv a RDigit = (if is_digit a then REps else RNone)"
| "rderiv a (RSeq r s) =
     (if nullable r then RAlt (RSeq (rderiv a r) s) (rderiv a s) else RSeq (rderiv a r) s)"
| "rderiv a (RAlt r s) = RAlt (rderiv a r) (rderiv a s)"
| "rderiv a (RStar r) = RSeq (rderiv a r) (RStar r)"

fun full_match :: "rexp \<Rightarrow> jsstring \<Rightarrow> bool" where
  "full_match r [] = nullable r"
| "full_match r (c # cs) = full_match (rderiv c r) cs"

definition origin_pattern :: rexp where
  "origin_pattern =
     RSeq (RLit (str ''http''))
       (RSeq (ROpt (RChar (of_char CHR ''s'')))
         (RSeq (RLit (str ''://''))
           (RSeq (RAlt (RLit (str ''localhost'')) (RLit (str ''127.0.0.1'')))
             (ROpt (RSeq (RChar (of_char CHR '':'')) (RPlus RDigit))))))"

text \<open>
  \<^verbatim>\<open>isAllowedOrigin\<close>: \<^verbatim>\<open>!origin\<close> holds for \<^verbatim>\<open>undefined\<close>, \<^verbatim>\<open>null\<close> and
  the empty string.
\<close>

definition isAllowedOrigin :: "jsstring jsopt \<Rightarrow> bool" where
  "isAllowedOrigin origin =
     (case origin of
        Undefined \<Rightarrow> False
      | Null \<Rightarrow> False
      | Val s \<Rightarrow>
          if s = [] then False
          else if full_match origin_pattern s then True
          else False)"

text \<open>
  The reading of the pattern in words: a scheme \<^verbatim>\<open>http://\<close> or \<^verbatim>\<open>https://\<close>, then
  exactly \<^verbatim>\<open>localhost\<close> or \<^verbatim>\<open>127.0.0.1\<close>, then nothing or a colon and one or more
  decimal digits.
\<close>

definition numeric_port :: "jsstring \<Rightarrow> bool" where
  "numeric_port p = (\<exists>ds. p = of_char CHR '':'' # ds \<and> ds \<noteq> [] \<and> list_all is_digit ds)"

definition allowed_origin_spec :: "jsstring \<Rightarrow> bool" where
  "allowed_origin_spec s =
     (\<exists>scheme \<in> {str ''http://'', str ''https://''}.
      \<exists>host \<in> {str ''localhost'', str ''127.0.0.1''}.
      \<exists>port. s = scheme @ host @ port \<and> (port = [] \<or> numeric_port port))"

text \<open>The language of a regular expression, against which the matcher is proved.\<close>

definition conc :: "jsstring set \<Rightarrow> jsstring set \<Rightarrow> jsstring set" where
  "conc A B = {u @ v | u v. u \<in> A \<and> v \<in> B}"

inductive_set star :: "jsstring set \<Rightarrow> jsstring set" for A :: "jsstring set" where
  star_nil: "[] \<in> star A"
| star_app: "u \<in> A \<Longrightarrow> v \<in> star A \<Longrightarrow> u @ v \<in> star A"

fun lang :: "rexp \<Rightarrow> jsstring set" where
  "lang RNone = {}"
| "lang REps = {[]}"
| "lang (RChar c) = {[c]}"
| "lang RDigit = {[d] | d. is_digit d}"
| "lang (RSeq r s) = conc (lang r) (lang s)"
| "lang (RAlt r s) = lang r \<union> lang s"
| "lang (RStar r) = star (lang r)"

subsection \<open>The \<^verbatim>\<open>/edit-file\<close> handler\<close>

text \<open>
  \<^verbatim>\<open>path.resolve\<close> of Node's POSIX path module, for an absolute first argument (the
  source passes \<^verbatim>\<open>__dirname\<close> and then its own result): an absolute second argument
  replaces the first, a relative one is appended to it; the joined path is split at
  \<^verbatim>\<open>/\<close>, empty and \<^verbatim>\<open>.\<close> segments are dropped, \<^verbatim>\<open>..\<close> removes the segment
  before it (and is dropped at the root), and the rest is joined below \<^verbatim>\<open>/\<close>.
\<close>

definition slash :: nat where
  "slash = of_char CHR ''/''"

fun split_path :: "jsstring \<Rightarrow> jsstring list" where
  "split_path [] = [[]]"
| "split_path (c # cs) =
     (if c = slash then [] # split_path cs
      else (case split_path cs of [] \<Rightarrow> [[c]] | seg # segs \<Rightarrow> (c # seg) # segs))"

fun normalize_segments :: "jsstring list \<Rightarrow> jsstring list \<Rightarrow> jsstring list" where
  "normalize_segments res [] = res"
| "normalize_segments res (seg # segs) =
     (if seg = [] \<or> seg = str ''.'' then normalize_segments res segs
      else if seg = str ''..'' then normalize_segments (butlast res) segs
      else normalize_segments (res @ [seg]) segs)"

fun join_path :: "jsstring list \<Rightarrow> jsstring" where
  "join_path [] = []"
| "join_path [seg] = seg"
| "join_path (seg # segs) = seg @ slash # join_path segs"

definition path_resolve :: "jsstring \<Rightarrow> jsstring \<Rightarrow> jsstring" where
  "path_resolve base p =
     (let joined = (if p \<noteq> [] \<and> hd p = slash then p else base @ slash # p)
      in slash # join_path (normalize_segments [] (split_path joined)))"

text \<open>
  The request as the handler reads it: the \<^verbatim>\<open>Origin\<close> header and
  \<^verbatim>\<open>req.body\<close>. The source mounts no body parser on the router, so \<^verbatim>\<open>req.body\<close>
  is \<^verbatim>\<open>undefined\<close> unless a middleware mounted elsewhere has parsed the body; a
  parsed body is an object whose \<^verbatim>\<open>filePath\<close> and \<^verbatim>\<open>content\<close> may be absent.
\<close>

record edit_body =
  body_filePath :: "jsstring jsopt"
  body_content :: "jsstring jsopt"

record edit_request =
  req_origin :: "jsstring jsopt"
  req_body :: "edit_body jsopt"

text \<open>
  The file system is what the handler can observe of it: the files that exist with their
  content, for every path whether reading or writing it throws (with the error's
  message), and the message of the TypeError that \<^verbatim>\<open>writeFileSync\<close> throws for data
  that is not a string.
\<close>

record filesystem =
  fs_files :: "jsstring \<rightharpoonup> jsstring"
  fs_read_error :: "jsstring \<Rightarrow> jsstring option"
  fs_write_error :: "jsstring \<Rightarrow> jsstring option"
  fs_invalid_data :: jsstring

datatype fs_effect =
    WriteFile jsstring jsstring
  | UnlinkAfter nat jsstring

text \<open>
  The body of a response: \<^verbatim>\<open>{error}\<close>, the success object with the \<^verbatim>\<open>filePath\<close>,
  or the page of Express's default error handler, which answers an exception that the
  handler does not catch with status 500.
\<close>

datatype response_body =
    ErrorBody jsstring
  | UpdatedBody jsstring
  | UncaughtException

record response =
  res_status :: nat
  res_headers :: "(jsstring \<times> jsstring) list"
  res_body :: response_body

definition falsy :: "jsstring jsopt \<Rightarrow> bool" where
  "falsy v = (case v of Undefined \<Rightarrow> True | Null \<Rightarrow> True | Val s \<Rightarrow> s = [])"

definition cors_headers :: "jsstring jsopt \<Rightarrow> (jsstring \<times> jsstring) list" where
  "cors_headers origin =
     (case origin of
        Val s \<Rightarrow>
          if \<not> falsy origin \<and> isAllowedOrigin origin
          then [(str ''Access-Control-Allow-Origin'', s),
                (str ''Access-Control-Allow-Headers'', str ''Content-Type'')]
          else []
      | _ \<Rightarrow> [])"

definition frontendRoot :: "jsstring \<Rightarrow> jsstring" where
  "frontendRoot dirname = path_resolve dirname (str ''../..'')"

definition forbidden_dir :: "jsstring \<Rightarrow> bool" where
  "forbidden_dir absolutePath =
     (js_includes absolutePath (str ''node_modules'') \<or>
      js_includes absolutePath (str ''.git'') \<or>
      js_includes absolutePath (str ''/public/''))"

text \<open>
  The backup step: when the target exists, its content is read and written to
  \<^verbatim>\<open>absolutePath + ".backup"\<close>, and the removal of the backup is scheduled 5000 ms
  later. \<open>Inl\<close> is the message of an exception thrown on the way.
\<close>

definition backup :: "filesystem \<Rightarrow> jsstring \<Rightarrow> jsstring + fs_effect list" where
  "backup fs absolutePath =
     (case fs_files fs absolutePath of
        None \<Rightarrow> Inr []
      | Some stored \<Rightarrow>
          (let backupFile = absolutePath @ str ''.backup'' in
           case fs_read_error fs absolutePath of
             Some msg \<Rightarrow> Inl msg
           | None \<Rightarrow>
               (case fs_write_error fs backupFile of
                  Some msg \<Rightarrow> Inl msg
                | None \<Rightarrow> Inr [WriteFile backupFile stored, UnlinkAfter 5000 backupFile])))"

text \<open>
  \<^verbatim>\<open>fs.writeFileSync(absolutePath, content, "utf8")\<close>: a \<^verbatim>\<open>null\<close> content passes the
  handler's \<^verbatim>\<open>content === undefined\<close> test and makes the call throw a TypeError.
\<close>

definition write_content :: "filesystem \<Rightarrow> jsstring \<Rightarrow> jsstring jsopt \<Rightarrow> jsstring + fs_effect list" where
  "write_content fs absolutePath content =
     (case content of
        Val c \<Rightarrow>
          (case fs_write_error fs absolutePath of
             Some msg \<Rightarrow> Inl msg
           | None \<Rightarrow> Inr [WriteFile absolutePath c])
      | _ \<Rightarrow> Inl (fs_invalid_data fs))"

definition reply :: "nat \<Rightarrow> (jsstring \<times> jsstring) list \<Rightarrow> response_body \<Rightarrow> response" where
  "reply code hs b = \<lparr>res_status = code, res_headers = hs, res_body = b\<rparr>"

text \<open>
  The handler of \<^verbatim>\<open>router.post("/edit-file", ...)\<close>. It returns the response and the
  file-system effects it performed, in order. The destructuring
  \<^verbatim>\<open>const { filePath, content } = req.body\<close> stands before the \<^verbatim>\<open>try\<close> block: for
  an \<^verbatim>\<open>undefined\<close> or \<^verbatim>\<open>null\<close> body it throws, and nothing in the handler
  catches that.
\<close>

definition edit_file ::
  "jsstring \<Rightarrow> filesystem \<Rightarrow> edit_request \<Rightarrow> response \<times> fs_effect list" where
  "edit_file dirname fs req =
     (let hs = cors_headers (req_origin req) in
      case req_body req of
        Val body \<Rightarrow>
          (case body_filePath body of
             Val filePath \<Rightarrow>
               if falsy (body_filePath body) \<or> body_content body = Undefined
               then (reply 400 hs (ErrorBody (str ''filePath and content required'')), [])
               else
                 (let root = frontendRoot dirname;
                      absolutePath = path_resolve root filePath
                  in if \<not> startsWith absolutePath root
                     then (reply 403 hs (ErrorBody (str ''Forbidden path'')), [])
                     else if forbidden_dir absolutePath
                     then (reply 403 hs (ErrorBody (str ''Forbidden path'')), [])
                     else
                       (case backup fs absolutePath of
                          Inl msg \<Rightarrow> (reply 500 hs (ErrorBody msg), [])
                        | Inr saved \<Rightarrow>
                            (case write_content fs absolutePath (body_content body) of
                               Inl msg \<Rightarrow> (reply 500 hs (ErrorBody msg), saved)
                             | Inr written \<Rightarrow>
                                 (reply 200 hs (UpdatedBody filePath), saved @ written))))
           | _ \<Rightarrow> (reply 400 hs (ErrorBody (str ''filePath and content required'')), []))
      | _ \<Rightarrow> (reply 500 hs UncaughtException, []))"

text \<open>
  A path lies inside a directory when it is the directory itself or continues it after
  a separator.
\<close>

definition inside_dir :: "jsstring \<Rightarrow> jsstring \<Rightarrow> bool" where
  "inside_dir dir p = (p = dir \<or> prefix (dir @ [slash]) p)"

section \<open>src/pages/Dashboard.js\<close>

subsection \<open>Data exchanged with the backend\<close>

text \<open>
  The objects the component reads from the responses, with the fields it reads. A
  citation's \<^verbatim>\<open>page\<close> is a number and may be absent; a chat-history source is
  whatever the wire carries, a plain string or an object.
\<close>

record document =
  doc_id :: jsstring
  doc_filename :: jsstring
  num_chunks :: int

record source =
  src_filename :: jsstring
  src_page :: "jsnumber jsopt"
  src_text :: jsstring

record ask_response =
  resp_answer :: jsstring
  resp_sources :: "source list"

datatype history_source =
    SourceName jsstring
  | SourceObject source

record chat_item =
  item_id :: jsstring
  item_question :: jsstring
  item_answer :: jsstring
  item_sources :: "history_source list"
  item_timestamp :: jsstring

record failed_file =
  ff_filename :: jsstring
  ff_error :: jsstring

record upload_report =
  uploaded :: int
  failed :: int
  failed_files :: "failed_file list"

record upload_file =
  file_name :: jsstring
  raw_bytes :: "nat list"

text \<open>
  What the \<^verbatim>\<open>catch\<close> block of \<^verbatim>\<open>handleFileUpload\<close> distinguishes in a rejected
  upload: no \<^verbatim>\<open>error.response.data.detail\<close> at all, a detail that is a string, or a
  detail object with \<^verbatim>\<open>failed_files\<close>.
\<close>

datatype upload_failure =
    NoDetail
  | DetailText jsstring
  | DetailFiles "failed_file list"

text \<open>
  The backend as the component meets it: the outcome of each request (\<open>Inl\<close> a
  rejected promise, \<open>Inr\<close> the response data).
\<close>

record 'e server =
  documents_reply :: "'e + document list"
  history_reply :: "'e + chat_item list"
  upload_reply :: "upload_file list \<Rightarrow> upload_failure + upload_report"
  chat_reply :: "jsstring \<Rightarrow> 'e + ask_response"

subsection \<open>Component state and effects\<close>

record answer =
  ans_question :: jsstring
  ans_answer :: jsstring
  ans_sources :: "source list"

record state =
  documents :: "document list"
  chatHistory :: "chat_item list"
  question :: jsstring
  isUploading :: bool
  isAsking :: bool
  currentAnswer :: "answer option"

datatype effect =
    PreventDefault
  | GetDocuments
  | GetChatHistory
  | PostUpload "upload_file list"
  | PostChat jsstring
  | ToastSuccess jsstring
  | ToastError jsstring
  | ConsoleError jsstring
  | ClearFileInput

definition is_request :: "effect \<Rightarrow> bool" where
  "is_request e =
     (case e of
        GetDocuments \<Rightarrow> True
      | GetChatHistory \<Rightarrow> True
      | PostUpload _ \<Rightarrow> True
      | PostChat _ \<Rightarrow> True
      | _ \<Rightarrow> False)"

definition is_notice :: "effect \<Rightarrow> bool" where
  "is_notice e = (case e of ToastSuccess _ \<Rightarrow> True | ToastError _ \<Rightarrow> True | _ \<Rightarrow> False)"

subsection \<open>Handlers\<close>

text \<open>
  A handler maps the state it closes over and the backend's replies to the state after
  all its updates and the effects it caused, in order. \<^verbatim>\<open>fetchDocuments\<close> and
  \<^verbatim>\<open>fetchChatHistory\<close> are started without \<^verbatim>\<open>await\<close>: the request is issued where
  they are called and their completion follows the caller's \<^verbatim>\<open>finally\<close> block.
\<close>

definition fetchDocuments_done :: "state \<Rightarrow> 'e server \<Rightarrow> state \<times> effect list" where
  "fetchDocuments_done st srv =
     (case documents_reply srv of
        Inr data \<Rightarrow> (st\<lparr>documents := data\<rparr>, [])
      | Inl _ \<Rightarrow> (st, [ConsoleError (str ''Error fetching documents:'')]))"

definition fetchChatHistory_done :: "state \<Rightarrow> 'e server \<Rightarrow> state \<times> effect list" where
  "fetchChatHistory_done st srv =
     (case history_reply srv of
        Inr data \<Rightarrow> (st\<lparr>chatHistory := data\<rparr>, [])
      | Inl _ \<Rightarrow> (st, [ConsoleError (str ''Error fetching chat history:'')]))"

definition failed_toast :: "failed_file \<Rightarrow> effect" where
  "failed_toast f = ToastError (ff_filename f @ str '': '' @ ff_error f)"

definition upload_toasts :: "upload_report \<Rightarrow> effect list" where
  "upload_toasts r =
     (if uploaded r > 0
      then [ToastSuccess (show_int (uploaded r) @ str '' document(s) uploaded successfully'')]
      else []) @
     (if failed r > 0 then map failed_toast (failed_files r) else [])"

definition failure_toasts :: "upload_failure \<Rightarrow> effect list" where
  "failure_toasts err =
     (case err of
        DetailFiles ffs \<Rightarrow> map failed_toast ffs
      | DetailText d \<Rightarrow>
          if d \<noteq> [] then [ToastError d] else [ToastError (str ''Failed to upload documents'')]
      | NoDetail \<Rightarrow> [ToastError (str ''Failed to upload documents'')])"

definition handleFileUpload ::
  "state \<Rightarrow> 'e server \<Rightarrow> upload_file list \<Rightarrow> state \<times> effect list" where
  "handleFileUpload st srv files =
     (if length files = 0 then (st, [])
      else
        (case upload_reply srv files of
           Inr r \<Rightarrow>
             (let (st', late) = fetchDocuments_done (st\<lparr>isUploading := False\<rparr>) srv
              in (st', [PostUpload files] @ upload_toasts r @ [GetDocuments, ClearFileInput] @ late))
         | Inl err \<Rightarrow>
             (st\<lparr>isUploading := False\<rparr>,
              [PostUpload files] @ failure_toasts err @
              [ConsoleError (str ''Upload error:''), ClearFileInput])))"

definition handleAskQuestion :: "state \<Rightarrow> 'e server \<Rightarrow> state \<times> effect list" where
  "handleAskQuestion st srv =
     (if trim (question st) = [] then (st, [PreventDefault])
      else
        (case chat_reply srv (question st) of
           Inr r \<Rightarrow>
             (let answered =
                    st\<lparr>currentAnswer :=
                         Some \<lparr>ans_question = question st, ans_answer = resp_answer r,
                               ans_sources = resp_sources r\<rparr>,
                       question := [],
                       isAsking := False\<rparr>;
                  (st', late) = fetchChatHistory_done answered srv
              in (st', [PreventDefault, PostChat (question st), GetChatHistory] @ late))
         | Inl _ \<Rightarrow>
             (st\<lparr>isAsking := False\<rparr>,
              [PreventDefault, PostChat (question st), ToastError (str ''Failed to get answer''),
               ConsoleError (str ''Chat error:'')])))"

subsection \<open>What the component renders\<close>

text \<open>
  A child of a JSX element: a string is shown as text; \<^verbatim>\<open>false\<close> (the value of a
  failed \<^verbatim>\<open>&&\<close> guard) is shown as nothing.
\<close>

datatype child = TextChild jsstring | NoChild

text \<open>
  The guarded label \<^verbatim>\<open>source.page > 0 && `(Page ${source.page})`\<close>; the comparison is
  false for an absent page (\<^verbatim>\<open>undefined\<close> compares as NaN, \<^verbatim>\<open>null\<close> as 0).
\<close>

definition page_label :: "(jsnumber \<Rightarrow> jsstring) \<Rightarrow> jsnumber jsopt \<Rightarrow> child" where
  "page_label other p =
     (case p of
        Val x \<Rightarrow>
          if gt_zero x then TextChild (str ''(Page '' @ number_text other x @ str '')'')
          else NoChild
      | _ \<Rightarrow> NoChild)"

text \<open>
  One entry of the Sources list of the current answer: the key, the children of the
  title paragraph (the filename, a space, the guarded page label) and the snippet
  paragraph.
\<close>

record source_view =
  view_key :: nat
  view_title :: "child list"
  view_snippet :: jsstring

definition render_source :: "(jsnumber \<Rightarrow> jsstring) \<Rightarrow> nat \<Rightarrow> source \<Rightarrow> source_view" where
  "render_source other idx s =
     \<lparr>view_key = idx,
      view_title = [TextChild (src_filename s), TextChild (str '' ''),
                    page_label other (src_page s)],
      view_snippet = src_text s\<rparr>"

section \<open>The backend, as the spec describes it\<close>

text \<open>
  The repository's backend is not among the source files. The definitions of this section
  are written from the spec, for the claims that speak about the backend; the similarity
  metric, the text extractor, the chunker and the two external models are parameters.
\<close>

text \<open>Modelled from the spec: the error taxonomy of section 7 (the backend is missing).\<close>

datatype api_error =
    ValidationError
  | ExtractionError
  | EmbeddingError
  | GenerationError
  | NotFoundError

text \<open>
  Modelled from the spec: Chunk of section 3 (the backend's data model is missing). Page
  0 means that the page is unset.
\<close>

record 'v chunk =
  chunk_id :: nat
  document_id :: nat
  ordinal :: nat
  page :: int
  chunk_text :: jsstring
  vector :: 'v

text \<open>Modelled from the spec: Document of section 3 (the backend's data model is missing).\<close>

record registered_document =
  reg_id :: nat
  reg_filename :: jsstring
  chunk_ids :: "nat list"

text \<open>
  Modelled from the spec: ChatRecord (the backend's data model is missing), as the
  orchestrator stores it: with the source filename list (section 4.6, step 6).
\<close>

record chat_record =
  rec_id :: nat
  rec_question :: jsstring
  rec_answer :: jsstring
  rec_sources :: "jsstring list"
  rec_timestamp :: jsstring

text \<open>
  Modelled from the spec: the Document Registry, the Vector Index (its entries in
  insertion order, each with its chunk) and the Chat Ledger, which the missing backend
  owns (sections 2 and 4).
\<close>

record 'v corpus =
  registry :: "registered_document list"
  index :: "'v chunk list"
  ledger :: "chat_record list"

text \<open>
  Modelled from the spec: top-k retrieval of section 4.3 (the Vector Index is missing):
  the entries sorted by similarity descending, ties kept in insertion order, cut after
  \<open>k\<close>. The sort is the library's stable insertion sort on the negated score.
\<close>

definition top_k :: "('a \<Rightarrow> 's::linordered_ab_group_add) \<Rightarrow> nat \<Rightarrow> 'a list \<Rightarrow> 'a list" where
  "top_k score k xs = take k (sort_key (\<lambda>x. - score x) xs)"

text \<open>
  Modelled from the spec: the Vector Index's \<^verbatim>\<open>search(query_vector, k)\<close> of section
  4.3 (the index is missing), an ordered sequence of \<^verbatim>\<open>(chunk_id, score)\<close>. The metric
  \<open>sim\<close> (cosine similarity in the spec) is a parameter.
\<close>

definition search ::
  "('v \<Rightarrow> 'v \<Rightarrow> 's::linordered_ab_group_add) \<Rightarrow> 'v chunk list \<Rightarrow> 'v \<Rightarrow> nat \<Rightarrow> (nat \<times> 's) list" where
  "search sim idx q k =
     map (\<lambda>c. (chunk_id c, sim q (vector c))) (top_k (\<lambda>c. sim q (vector c)) k idx)"

text \<open>
  Modelled from the spec: the external collaborators of the Ingestion Pipeline of section
  4.5 (missing from the sources): the type check, the text extractor (the text per page,
  or a failure), the Chunker of section 4.1, the Embedding Gateway of section 4.2 (per
  item a vector or a failure), and the text of an error in the report.
\<close>

record 'v pipeline =
  accepted :: "upload_file \<Rightarrow> bool"
  extract_text :: "upload_file \<Rightarrow> jsstring list option"
  chunker :: "jsstring list \<Rightarrow> (jsstring \<times> int) list"
  embed_batch :: "jsstring list \<Rightarrow> 'v option list"
  describe :: "api_error \<Rightarrow> jsstring"

text \<open>
  Modelled from the spec: steps 1 to 4 of section 4.5 (the Ingestion Pipeline is
  missing). Per file: validate the type, extract the text per page, chunk it, embed all
  chunks; a failure of any step, also of one chunk's embedding, fails the whole file.
\<close>

definition ingest_file ::
  "'v pipeline \<Rightarrow> upload_file \<Rightarrow> api_error + ((jsstring \<times> int) \<times> 'v) list" where
  "ingest_file pl f =
     (if \<not> accepted pl f then Inl ValidationError
      else
        (case extract_text pl f of
           None \<Rightarrow> Inl ExtractionError
         | Some pages \<Rightarrow>
             (let spans = chunker pl pages;
                  vs = embed_batch pl (map fst spans)
              in if length vs = length spans \<and> list_all (\<lambda>v. v \<noteq> None) vs
                 then Inr (zip spans (map the vs))
                 else Inl EmbeddingError)))"

text \<open>
  Modelled from the spec: the choice of a new identifier (the backend is missing; the spec
  only asks for identifiers): the one after the largest in use.
\<close>

definition fresh :: "nat list \<Rightarrow> nat" where
  "fresh ids = (if ids = [] then 0 else Suc (Max (set ids)))"

text \<open>
  Modelled from the spec: step 5 of section 4.5 (the Ingestion Pipeline is missing): the
  chunk vectors enter the index, then the Document is registered.
\<close>

definition commit ::
  "'v corpus \<Rightarrow> upload_file \<Rightarrow> ((jsstring \<times> int) \<times> 'v) list \<Rightarrow> 'v corpus" where
  "commit st f embedded =
     (let did = fresh (map reg_id (registry st));
          base = fresh (map chunk_id (index st));
          cs = map (\<lambda>(i, ((t, p), v)).
                 \<lparr>chunk_id = base + i, document_id = did, ordinal = i, page = p,
                  chunk_text = t, vector = v\<rparr>) (enumerate 0 embedded)
      in st\<lparr>index := index st @ cs,
             registry := registry st @
               [\<lparr>reg_id = did, reg_filename = file_name f, chunk_ids = map chunk_id cs\<rparr>]\<rparr>)"

text \<open>
  Modelled from the spec: the batch result of section 4.5 and the Upload operation of
  section 6 (the Ingestion Pipeline is missing): every file is processed on its own; a
  failure is recorded as \<^verbatim>\<open>{filename, error}\<close> and leaves the corpus as it was (step
  6), a success commits the file and is counted.
\<close>

fun upload_batch ::
  "'v pipeline \<Rightarrow> 'v corpus \<Rightarrow> upload_file list \<Rightarrow> 'v corpus \<times> upload_report" where
  "upload_batch pl st [] = (st, \<lparr>uploaded = 0, failed = 0, failed_files = []\<rparr>)"
| "upload_batch pl st (f # fs) =
     (case ingest_file pl f of
        Inl e \<Rightarrow>
          (let (st', r) = upload_batch pl st fs
           in (st', r\<lparr>failed := failed r + 1,
                      failed_files :=
                        \<lparr>ff_filename = file_name f, ff_error = describe pl e\<rparr> # failed_files r\<rparr>))
      | Inr embedded \<Rightarrow>
          (let (st', r) = upload_batch pl (commit st f embedded) fs
           in (st', r\<lparr>uploaded := uploaded r + 1\<rparr>)))"

text \<open>
  Modelled from the spec: the parameters of the Retrieval Orchestrator of section 4.6
  (missing from the sources): the external embedding and generation functions (each may
  fail), the metric, the configured \<open>k\<close>, the bound of a snippet (if any), the tag a
  chunk text gets in the context, and the clock.
\<close>

record ('v, 's) orchestrator =
  embed :: "jsstring \<Rightarrow> 'v option"
  generate :: "jsstring \<Rightarrow> jsstring \<Rightarrow> jsstring option"
  similarity :: "'v \<Rightarrow> 'v \<Rightarrow> 's"
  top :: nat
  snippet_limit :: "nat option"
  tag :: "jsstring \<Rightarrow> int \<Rightarrow> jsstring \<Rightarrow> jsstring"
  now :: jsstring

text \<open>
  Modelled from the spec: the calls the orchestrator makes on its collaborators (section
  4.6; the orchestrator is missing), recorded so that a claim can speak about them.
\<close>

datatype call =
    Embed jsstring
  | Search
  | Generate jsstring jsstring

text \<open>
  Modelled from the spec: the fixed ``no documents available'' answer of section 4.6,
  step 3 (the orchestrator, and with it the exact wording, is missing).
\<close>

definition no_documents_answer :: jsstring where
  "no_documents_answer = str ''No documents available''"

text \<open>
  Modelled from the spec: the filename of a chunk's Document, through the back-reference
  of section 3 (the registry is missing).
\<close>

definition filename_of :: "'v corpus \<Rightarrow> nat \<Rightarrow> jsstring" where
  "filename_of st did =
     (case find (\<lambda>d. reg_id d = did) (registry st) of
        Some d \<Rightarrow> reg_filename d
      | None \<Rightarrow> [])"

text \<open>
  Modelled from the spec: the snippet of section 4.6, step 5 (the orchestrator is
  missing): the chunk text, or a bounded prefix of it.
\<close>

definition snippet :: "nat option \<Rightarrow> jsstring \<Rightarrow> jsstring" where
  "snippet limit t = (case limit of None \<Rightarrow> t | Some n \<Rightarrow> take n t)"

text \<open>
  Modelled from the spec: one citation \<^verbatim>\<open>{filename, page, snippet}\<close> of section 4.6,
  step 5 (the orchestrator is missing), in the field names of the Ask response of
  section 6; the page travels as a number.
\<close>

definition cite :: "('v, 's) orchestrator \<Rightarrow> 'v corpus \<Rightarrow> 'v chunk \<Rightarrow> source" where
  "cite orc st c =
     \<lparr>src_filename = filename_of st (document_id c),
      src_page = Val (Finite (of_int (page c))),
      src_text = snippet (snippet_limit orc) (chunk_text c)\<rparr>"

text \<open>
  Modelled from the spec: the context of section 4.6, step 4 (the orchestrator is
  missing): the retrieved chunk texts, each tagged with its filename and page,
  concatenated.
\<close>

definition assemble :: "('v, 's) orchestrator \<Rightarrow> 'v corpus \<Rightarrow> 'v chunk list \<Rightarrow> jsstring" where
  "assemble orc st hits =
     concat (map (\<lambda>c. tag orc (filename_of st (document_id c)) (page c) (chunk_text c)) hits)"

text \<open>
  Modelled from the spec: section 4.6, step 2 (the orchestrator is missing): the top-k
  chunks of the index for the embedded question.
\<close>

definition retrieve ::
  "('v, 's::linordered_ab_group_add) orchestrator \<Rightarrow> 'v corpus \<Rightarrow> 'v \<Rightarrow> 'v chunk list" where
  "retrieve orc st qv = top_k (\<lambda>c. similarity orc qv (vector c)) (top orc) (index st)"

text \<open>
  Modelled from the spec: the Ask operation, steps 1 to 6 of section 4.6 (the Retrieval
  Orchestrator is missing). It returns the typed failure or the response, the corpus
  afterwards, and the calls made, in order.
\<close>

definition ask ::
  "('v, 's::linordered_ab_group_add) orchestrator \<Rightarrow> 'v corpus \<Rightarrow> jsstring \<Rightarrow>
     (api_error + ask_response) \<times> 'v corpus \<times> call list" where
  "ask orc st q =
     (case embed orc q of
        None \<Rightarrow> (Inl EmbeddingError, st, [Embed q])
      | Some qv \<Rightarrow>
          (let hits = retrieve orc st qv in
           if hits = []
           then (Inr \<lparr>resp_answer = no_documents_answer, resp_sources = []\<rparr>, st,
                 [Embed q, Search])
           else
             (let context = assemble orc st hits in
              case generate orc q context of
                None \<Rightarrow> (Inl GenerationError, st, [Embed q, Search, Generate q context])
              | Some a \<Rightarrow>
                  (let cites = map (cite orc st) hits;
                       entry = \<lparr>rec_id = fresh (map rec_id (ledger st)), rec_question = q,
                                rec_answer = a, rec_sources = map src_filename cites,
                                rec_timestamp = now orc\<rparr>
                   in (Inr \<lparr>resp_answer = a, resp_sources = cites\<rparr>,
                       st\<lparr>ledger := ledger st @ [entry]\<rparr>,
                       [Embed q, Search, Generate q context])))))"

section \<open>Concrete values\<close>

text \<open>
  Inputs on which the theorems below are exercised: a plugin directory, a file system
  without files or failures, a component state, a corpus with one document of three
  chunks, an orchestrator and an ingestion pipeline with simple stand-ins for the
  external functions (and the orchestrator with a failing generation), and a backend
  that answers with their results.
\<close>

definition dev_dirname :: jsstring where
  "dev_dirname = str ''/app/frontend/plugins/visual-edits''"

definition empty_fs :: filesystem where
  "empty_fs =
     \<lparr>fs_files = Map.empty, fs_read_error = (\<lambda>_. None), fs_write_error = (\<lambda>_. None),
      fs_invalid_data = str ''invalid data''\<rparr>"

definition example_state :: state where
  "example_state =
     \<lparr>documents = [], chatHistory = [], question = str ''hi'', isUploading = False,
      isAsking = True, currentAnswer = None\<rparr>"

definition example_orc :: "(int, int) orchestrator" where
  "example_orc =
     \<lparr>embed = (\<lambda>q. Some 3), generate = (\<lambda>q context. Some context),
      similarity = (\<lambda>a b. - \<bar>a - b\<bar>), top = 2, snippet_limit = Some 2,
      tag = (\<lambda>f p t. t), now = str ''t0''\<rparr>"

definition mute_orc :: "(int, int) orchestrator" where
  "mute_orc = example_orc\<lparr>generate := (\<lambda>q context. None)\<rparr>"

definition example_corpus :: "int corpus" where
  "example_corpus =
     \<lparr>registry = [\<lparr>reg_id = 0, reg_filename = str ''a.pdf'', chunk_ids = [0, 1, 2]\<rparr>],
      index =
        [\<lparr>chunk_id = 0, document_id = 0, ordinal = 0, page = 1, chunk_text = str ''abc'',
          vector = 7\<rparr>,
         \<lparr>chunk_id = 1, document_id = 0, ordinal = 1, page = 0, chunk_text = str ''d'',
          vector = 3\<rparr>,
         \<lparr>chunk_id = 2, document_id = 0, ordinal = 2, page = 2, chunk_text = str ''efg'',
          vector = 4\<rparr>],
      ledger = []\<rparr>"

definition empty_corpus :: "int corpus" where
  "empty_corpus = \<lparr>registry = [], index = [], ledger = []\<rparr>"

definition example_pipeline :: "int pipeline" where
  "example_pipeline =
     \<lparr>accepted = (\<lambda>f. file_name f \<noteq> str ''bad.txt''),
      extract_text = (\<lambda>f. Some [file_name f]),
      chunker = (\<lambda>pages. map (\<lambda>t. (t, 1)) pages),
      embed_batch = (\<lambda>texts. map (\<lambda>t. Some (int (length t))) texts),
      describe = (\<lambda>e. str ''rejected'')\<rparr>"

definition example_files :: "upload_file list" where
  "example_files =
     [\<lparr>file_name = str ''a.pdf'', raw_bytes = []\<rparr>, \<lparr>file_name = str ''bad.txt'', raw_bytes = []\<rparr>]"

definition example_server :: "(int, int) orchestrator \<Rightarrow> int corpus \<Rightarrow> api_error server" where
  "example_server orc st =
     \<lparr>documents_reply = Inr [], history_reply = Inr [],
      upload_reply = (\<lambda>files. Inr (snd (upload_batch example_pipeline st files))),
      chat_reply = (\<lambda>q. fst (ask orc st q))\<rparr>"

section \<open>Properties of the dev-server plugin\<close>

subsection \<open>The matcher decides the language of the pattern\<close>

lemma nullable_lang: "nullable r \<longleftrightarrow> [] \<in> lang r"
  by (induction r) (auto simp: conc_def intro: star.star_nil)

lemma star_cons_iff:
  "a # w \<in> star A \<longleftrightarrow> (\<exists>u v. a # u \<in> A \<and> v \<in> star A \<and> w = u @ v)"
proof
  assume "a # w \<in> star A"
  then show "\<exists>u v. a # u \<in> A \<and> v \<in> star A \<and> w = u @ v"
  proof (induction "a # w" arbitrary: w rule: star.induct)
    case (star_app u v)
    then show ?case
      by (cases u) auto
  qed
next
  assume "\<exists>u v. a # u \<in> A \<and> v \<in> star A \<and> w = u @ v"
  then obtain u v where "a # u \<in> A" "v \<in> star A" "w = u @ v" by blast
  then show "a # w \<in> star A"
    using star.star_app [of "a # u" A v] by simp
qed

lemma conc_iff: "w \<in> conc A B \<longleftrightarrow> (\<exists>u\<in>A. \<exists>v\<in>B. w = u @ v)"
  by (auto simp: conc_def)

lemma conc_cons_iff:
  "a # w \<in> conc A B \<longleftrightarrow>
     (\<exists>u v. a # u \<in> A \<and> v \<in> B \<and> w = u @ v) \<or> ([] \<in> A \<and> a # w \<in> B)"
  unfolding conc_def
  by (auto simp: append_eq_Cons_conv Cons_eq_append_conv)

lemma lang_rderiv: "w \<in> lang (rderiv a r) \<longleftrightarrow> a # w \<in> lang r"
proof (induction r arbitrary: w)
  case (RSeq r s)
  then show ?case
    by (auto simp: conc_cons_iff nullable_lang) (auto simp: conc_def)
next
  case (RStar r)
  then show ?case
    by (auto simp: star_cons_iff conc_def)
qed (auto simp: conc_def)

lemma full_match_lang: "full_match r w \<longleftrightarrow> w \<in> lang r"
  by (induction w arbitrary: r) (simp_all add: nullable_lang lang_rderiv)

lemma lang_RLit: "lang (RLit s) = {s}"
  by (induction s) (auto simp: conc_def)

lemma lang_ROpt: "lang (ROpt r) = insert [] (lang r)"
  by (auto simp: ROpt_def)

lemma star_digits: "w \<in> star {[d] | d. is_digit d} \<longleftrightarrow> list_all is_digit w"
proof
  show "w \<in> star {[d] | d. is_digit d} \<Longrightarrow> list_all is_digit w"
    by (induction rule: star.induct) auto
  show "list_all is_digit w \<Longrightarrow> w \<in> star {[d] | d. is_digit d}"
  proof (induction w)
    case Nil
    show ?case by (rule star.star_nil)
  next
    case (Cons d ds)
    then have "[d] \<in> {[d] | d. is_digit d}" and "ds \<in> star {[d] | d. is_digit d}" by auto
    then have "[d] @ ds \<in> star {[d] | d. is_digit d}" by (rule star.star_app)
    then show ?case by simp
  qed
qed

lemma lang_RPlus_RDigit: "w \<in> lang (RPlus RDigit) \<longleftrightarrow> w \<noteq> [] \<and> list_all is_digit w"
proof (cases w)
  case Nil
  then show ?thesis by (simp add: RPlus_def conc_iff)
next
  case (Cons d v)
  have "d # v \<in> conc {[d] | d. is_digit d} (star {[d] | d. is_digit d}) \<longleftrightarrow>
      is_digit d \<and> v \<in> star {[d] | d. is_digit d}"
    by (auto simp: conc_iff)
  then show ?thesis
    using Cons star_digits [of v] by (simp add: RPlus_def)
qed

lemma lang_port:
  "p \<in> lang (ROpt (RSeq (RChar c) (RPlus RDigit))) \<longleftrightarrow>
     p = [] \<or> (\<exists>ds. p = c # ds \<and> ds \<noteq> [] \<and> list_all is_digit ds)"
proof -
  have "p \<in> conc {[c]} (lang (RPlus RDigit)) \<longleftrightarrow>
      (\<exists>ds. p = c # ds \<and> ds \<noteq> [] \<and> list_all is_digit ds)"
    unfolding conc_iff using lang_RPlus_RDigit by auto
  then show ?thesis
    by (simp add: lang_ROpt)
qed

lemma lang_shape:
  "lang (RSeq (RLit a) (RSeq (ROpt (RChar c)) (RSeq (RLit b) (RSeq (RAlt (RLit h1) (RLit h2)) P)))) =
     conc {a} (conc {[], [c]} (conc {b} (conc {h1, h2} (lang P))))"
  by (simp add: lang_RLit lang_ROpt insert_commute)

lemma Bex_conc: "(\<exists>v\<in>conc A B. Q v) \<longleftrightarrow> (\<exists>u\<in>A. \<exists>v\<in>B. Q (u @ v))"
  unfolding conc_def by blast

lemma conc_shape:
  "w \<in> conc {a} (conc {[], [c]} (conc {b} (conc {h1, h2} P))) \<longleftrightarrow>
     (\<exists>scheme \<in> {a @ b, a @ c # b}. \<exists>host \<in> {h1, h2}. \<exists>p \<in> P. w = scheme @ host @ p)"
  unfolding conc_iff Bex_conc by auto

lemma lang_origin_pattern: "s \<in> lang origin_pattern \<longleftrightarrow> allowed_origin_spec s"
proof -
  let ?port = "ROpt (RSeq (RChar (of_char CHR '':'')) (RPlus RDigit))"
  have port: "p \<in> lang ?port \<longleftrightarrow> p = [] \<or> numeric_port p" for p
    unfolding numeric_port_def by (rule lang_port)
  have Bex_port: "(\<exists>p\<in>lang ?port. R p) \<longleftrightarrow> (\<exists>p. R p \<and> (p = [] \<or> numeric_port p))" for R
    using port by blast
  have schemes: "str ''http'' @ str ''://'' = str ''http://''"
    "str ''http'' @ of_char CHR ''s'' # str ''://'' = str ''https://''"
    by (simp_all add: str_def)
  have "s \<in> lang origin_pattern \<longleftrightarrow> (\<exists>scheme \<in> {str ''http://'', str ''https://''}.
      \<exists>host \<in> {str ''localhost'', str ''127.0.0.1''}.
      \<exists>p \<in> lang ?port. s = scheme @ host @ p)"
    unfolding origin_pattern_def lang_shape conc_shape schemes ..
  also have "\<dots> \<longleftrightarrow> allowed_origin_spec s"
    unfolding allowed_origin_spec_def Bex_port ..
  finally show ?thesis .
qed

lemma not_allowed_nil: "\<not> allowed_origin_spec []"
  by (simp add: allowed_origin_spec_def str_def)

text \<open>
  Claim C9. \<^verbatim>\<open>isAllowedOrigin(origin)\<close> is true if and only if the origin is
  \<^verbatim>\<open>http://\<close> or \<^verbatim>\<open>https://\<close> followed by exactly \<^verbatim>\<open>localhost\<close> or
  \<^verbatim>\<open>127.0.0.1\<close> and an optional numeric port; it is false for a missing, a null and
  an empty origin.
\<close>

theorem isAllowedOrigin_iff:
  "isAllowedOrigin origin =
     (case origin of Undefined \<Rightarrow> False | Null \<Rightarrow> False | Val s \<Rightarrow> allowed_origin_spec s) \<and>
   \<not> isAllowedOrigin Undefined \<and> \<not> isAllowedOrigin Null \<and> \<not> isAllowedOrigin (Val [])"
proof -
  have "isAllowedOrigin origin =
      (case origin of Undefined \<Rightarrow> False | Null \<Rightarrow> False | Val s \<Rightarrow> allowed_origin_spec s)"
    by (cases origin)
      (simp_all add: isAllowedOrigin_def full_match_lang lang_origin_pattern not_allowed_nil)
  then show ?thesis
    by (simp add: isAllowedOrigin_def)
qed

lemma isAllowedOrigin_examples:
  "isAllowedOrigin (Val (str ''http://localhost:3000''))"
  "isAllowedOrigin (Val (str ''https://127.0.0.1''))"
  "\<not> isAllowedOrigin (Val (str ''http://localhost:''))"
  "\<not> isAllowedOrigin (Val (str ''http://localhost.evil.com''))"
  "\<not> isAllowedOrigin (Val (str ''ftp://localhost''))"
  by (simp_all add: isAllowedOrigin_def origin_pattern_def str_def ROpt_def RPlus_def is_digit_def)

subsection \<open>\<^verbatim>\<open>/edit-file\<close>\<close>

lemma inside_dir_startsWith: "inside_dir dir p \<Longrightarrow> startsWith p dir"
  by (auto simp: inside_dir_def startsWith_def prefix_def)

text \<open>
  What the handler does on the way to a write: without a body it throws (status 500);
  without \<^verbatim>\<open>filePath\<close> or content it answers 400; when the resolved path fails the
  prefix test or contains a forbidden name it answers 403. None of these performs a
  file-system effect.
\<close>

lemma edit_file_no_body:
  assumes "req_body req = Undefined \<or> req_body req = Null"
  shows "res_status (fst (edit_file dirname fs req)) = 500 \<and> snd (edit_file dirname fs req) = []"
  using assms by (auto simp: edit_file_def reply_def Let_def)

lemma edit_file_bad_request:
  assumes "req_body req = Val body"
    and "falsy (body_filePath body) \<or> body_content body = Undefined"
  shows "res_status (fst (edit_file dirname fs req)) = 400 \<and> snd (edit_file dirname fs req) = []"
  using assms by (auto simp: edit_file_def reply_def falsy_def Let_def split: jsopt.splits)

lemma edit_file_forbidden_path:
  assumes "req_body req = Val body"
    and "body_filePath body = Val filePath" and "filePath \<noteq> []"
    and "body_content body \<noteq> Undefined"
    and "\<not> startsWith (path_resolve (frontendRoot dirname) filePath) (frontendRoot dirname) \<or>
         forbidden_dir (path_resolve (frontendRoot dirname) filePath)"
  shows "res_status (fst (edit_file dirname fs req)) = 403 \<and> snd (edit_file dirname fs req) = []"
  using assms by (auto simp: edit_file_def reply_def falsy_def Let_def)

lemma frontendRoot_example: "frontendRoot dev_dirname = str ''/app/frontend''"
  by code_simp

lemma path_resolve_examples:
  "path_resolve (str ''/app/frontend'') (str ''src/./a/../App.js'') = str ''/app/frontend/src/App.js''"
  "path_resolve (str ''/app/frontend'') (str ''/etc//passwd/'') = str ''/etc/passwd''"
  "path_resolve (str ''/app/frontend'') (str ''../../../..'') = str ''/''"
  "path_resolve (str ''/app/frontend'') (str ''../frontend-backup/x.js'') =
     str ''/app/frontend-backup/x.js''"
  by code_simp+

text \<open>
  Claim C8 says that every \<^verbatim>\<open>/edit-file\<close> request whose resolved path lies outside
  the frontend root, or contains \<^verbatim>\<open>node_modules\<close>, \<^verbatim>\<open>.git\<close> or \<^verbatim>\<open>/public/\<close>, is
  answered 403 without a file-system write. The code breaks it. With a parsed body, the
  path \<^verbatim>\<open>../frontend-backup/x.js\<close> resolves to a sibling of the root whose name
  continues the root's name; it lies outside the root, passes the handler's prefix test,
  is answered 200 and is written, against the source's own comment (``Ensure the file is
  within the frontend directory''). With no body parsed, as the source mounts the
  router, the handler throws before any check and the request is answered 500.
\<close>

theorem edit_file_writes_outside_root:
  "frontendRoot dev_dirname = str ''/app/frontend'' \<and>
   path_resolve (frontendRoot dev_dirname) (str ''../frontend-backup/x.js'') =
     str ''/app/frontend-backup/x.js'' \<and>
   \<not> inside_dir (frontendRoot dev_dirname)
        (path_resolve (frontendRoot dev_dirname) (str ''../frontend-backup/x.js'')) \<and>
   res_status (fst (edit_file dev_dirname empty_fs
      \<lparr>req_origin = Undefined,
       req_body = Val \<lparr>body_filePath = Val (str ''../frontend-backup/x.js''),
                       body_content = Val (str ''x'')\<rparr>\<rparr>)) = 200 \<and>
   snd (edit_file dev_dirname empty_fs
      \<lparr>req_origin = Undefined,
       req_body = Val \<lparr>body_filePath = Val (str ''../frontend-backup/x.js''),
                       body_content = Val (str ''x'')\<rparr>\<rparr>) =
     [WriteFile (str ''/app/frontend-backup/x.js'') (str ''x'')] \<and>
   res_status (fst (edit_file dev_dirname empty_fs
      \<lparr>req_origin = Undefined, req_body = Undefined\<rparr>)) = 500 \<and>
   snd (edit_file dev_dirname empty_fs \<lparr>req_origin = Undefined, req_body = Undefined\<rparr>) = []"
  by code_simp

section \<open>Properties of the Dashboard component\<close>

lemma list_all_dropWhile: "list_all P (dropWhile P s) \<longleftrightarrow> list_all P s"
  by (induction s) auto

lemma trim_empty_iff: "trim s = [] \<longleftrightarrow> list_all js_whitespace s"
proof -
  have "trim s = [] \<longleftrightarrow> list_all js_whitespace (rev (dropWhile js_whitespace s))"
    by (simp add: trim_def dropWhile_eq_Nil_conv list_all_iff)
  then show ?thesis
    by (simp add: list_all_dropWhile)
qed

text \<open>
  Claim C10. Submitting the Ask form with an empty or whitespace-only question is a
  no-op: \<^verbatim>\<open>handleAskQuestion\<close> issues no network request and leaves the question, the
  current answer, the chat history and the in-flight flag (the whole state) unchanged.
  Its only effect is \<^verbatim>\<open>e.preventDefault()\<close>.
\<close>

theorem blank_question_noop:
  assumes "list_all js_whitespace (question st)"
  shows "handleAskQuestion st srv = (st, [PreventDefault]) \<and>
         filter is_request (snd (handleAskQuestion st srv)) = []"
  using assms by (simp add: handleAskQuestion_def trim_empty_iff is_request_def)

theorem blank_question_noop_witness:
  "list_all js_whitespace [32, 9, 160] \<and>
   handleAskQuestion
     \<lparr>documents = [], chatHistory = [], question = [32, 9, 160], isUploading = False,
      isAsking = False, currentAnswer = None\<rparr>
     \<lparr>documents_reply = Inl (), history_reply = Inl (),
      upload_reply = (\<lambda>_. Inl NoDetail), chat_reply = (\<lambda>_. Inl ())\<rparr>
   = (\<lparr>documents = [], chatHistory = [], question = [32, 9, 160], isUploading = False,
       isAsking = False, currentAnswer = None\<rparr>, [PreventDefault])"
  using blank_question_noop
    [of "\<lparr>documents = [], chatHistory = [], question = [32, 9, 160], isUploading = False,
      isAsking = False, currentAnswer = None\<rparr>"
      "\<lparr>documents_reply = Inl (), history_reply = Inl (),
      upload_reply = (\<lambda>_. Inl NoDetail), chat_reply = (\<lambda>_. Inl ())\<rparr> :: unit server"]
  by (simp add: js_whitespace_def)

subsection \<open>Citations\<close>

lemma show_nat_small: "n < 10 \<Longrightarrow> show_nat n = [48 + n]"
  by (subst show_nat.simps) simp

lemma show_nat_large: "\<not> n < 10 \<Longrightarrow> show_nat n = show_nat (n div 10) @ [48 + n mod 10]"
  by (subst show_nat.simps) simp

lemma is_digit_mod: "is_digit (48 + n mod 10)"
proof -
  have "n mod 10 < 10" by simp
  then show ?thesis unfolding is_digit_def by linarith
qed

lemma show_nat_digits: "list_all is_digit (show_nat n) \<and> show_nat n \<noteq> []"
proof (induction n rule: show_nat.induct)
  case (1 n)
  show ?case
  proof (cases "n < 10")
    case True
    then show ?thesis by (simp add: show_nat_small is_digit_def)
  next
    case False
    with 1 show ?thesis by (simp add: show_nat_large is_digit_mod)
  qed
qed

lemma show_nat_value: "digit_value (show_nat n) = n"
proof (induction n rule: show_nat.induct)
  case (1 n)
  show ?case
  proof (cases "n < 10")
    case True
    then show ?thesis by (simp add: show_nat_small digit_value_def)
  next
    case False
    with 1 have "digit_value (show_nat (n div 10)) = n div 10" by simp
    with False show ?thesis
      by (simp add: show_nat_large digit_value_def)
  qed
qed

lemma number_text_safe:
  assumes "\<bar>n\<bar> \<le> 2 ^ 53 - 1"
  shows "number_text other (Finite (of_int n)) = show_int n"
proof -
  have "\<bar>of_int n :: rat\<bar> \<le> 2 ^ 53 - 1"
    using assms of_int_le_iff [of "\<bar>n\<bar>" "2 ^ 53 - 1", where ?'a = rat] by simp
  then show ?thesis
    by (simp add: number_text_def safe_integer_def)
qed

lemma show_int_positive:
  assumes "0 < n"
  shows "list_all is_digit (show_int n) \<and> digit_value (show_int n) = nat n"
  using assms by (simp add: show_int_def show_nat_digits show_nat_value)

text \<open>
  Claim C6. Page number 0 in a citation is the ``no page'' sentinel, not a first page:
  for a source with page \<open>\<le> 0\<close>, as for one without a page, no page label is shown (the
  guard yields \<^verbatim>\<open>false\<close>, which renders nothing), and for a source with page \<open>> 0\<close>
  the label \<^verbatim>\<open>(Page n)\<close> with the page number, as JavaScript prints the number, is
  shown: in decimal digits for every safe integer.
\<close>

theorem page_zero_unset:
  "view_title (render_source other idx (s\<lparr>src_page := Val (Finite 0)\<rparr>)) =
     [TextChild (src_filename s), TextChild (str '' ''), NoChild] \<and>
   (src_page s = Val x \<and> le_zero x \<longrightarrow>
      view_title (render_source other idx s) =
        [TextChild (src_filename s), TextChild (str '' ''), NoChild]) \<and>
   (src_page s = Undefined \<or> src_page s = Null \<longrightarrow>
      view_title (render_source other idx s) =
        [TextChild (src_filename s), TextChild (str '' ''), NoChild]) \<and>
   (src_page s = Val x \<and> gt_zero x \<longrightarrow>
      view_title (render_source other idx s) =
        [TextChild (src_filename s), TextChild (str '' ''),
         TextChild (str ''(Page '' @ number_text other x @ str '')'')]) \<and>
   (src_page s = Val (Finite (of_int n)) \<and> 0 < n \<and> n \<le> 2 ^ 53 - 1 \<longrightarrow>
      view_title (render_source other idx s) =
        [TextChild (src_filename s), TextChild (str '' ''),
         TextChild (str ''(Page '' @ show_int n @ str '')'')] \<and>
      list_all is_digit (show_int n) \<and> digit_value (show_int n) = nat n)"
proof -
  have zero: "view_title (render_source other idx (s\<lparr>src_page := Val (Finite 0)\<rparr>)) =
      [TextChild (src_filename s), TextChild (str '' ''), NoChild]"
    by (simp add: render_source_def page_label_def gt_zero_def)
  have le: "src_page s = Val x \<and> le_zero x \<longrightarrow>
      view_title (render_source other idx s) =
        [TextChild (src_filename s), TextChild (str '' ''), NoChild]"
    by (cases x) (auto simp: render_source_def page_label_def gt_zero_def le_zero_def)
  have absent: "src_page s = Undefined \<or> src_page s = Null \<longrightarrow>
      view_title (render_source other idx s) =
        [TextChild (src_filename s), TextChild (str '' ''), NoChild]"
    by (auto simp: render_source_def page_label_def)
  have gt: "src_page s = Val x \<and> gt_zero x \<longrightarrow>
      view_title (render_source other idx s) =
        [TextChild (src_filename s), TextChild (str '' ''),
         TextChild (str ''(Page '' @ number_text other x @ str '')'')]"
    by (simp add: render_source_def page_label_def)
  have safe: "src_page s = Val (Finite (of_int n)) \<and> 0 < n \<and> n \<le> 2 ^ 53 - 1 \<longrightarrow>
      view_title (render_source other idx s) =
        [TextChild (src_filename s), TextChild (str '' ''),
         TextChild (str ''(Page '' @ show_int n @ str '')'')] \<and>
      list_all is_digit (show_int n) \<and> digit_value (show_int n) = nat n"
  proof (intro impI)
    assume h: "src_page s = Val (Finite (of_int n)) \<and> 0 < n \<and> n \<le> 2 ^ 53 - 1"
    then have "\<bar>n\<bar> \<le> 2 ^ 53 - 1" by simp
    then have "number_text other (Finite (of_int n)) = show_int n"
      by (rule number_text_safe)
    moreover have "gt_zero (Finite (of_int n))"
      using h by (simp add: gt_zero_def)
    ultimately show "view_title (render_source other idx s) =
        [TextChild (src_filename s), TextChild (str '' ''),
         TextChild (str ''(Page '' @ show_int n @ str '')'')] \<and>
      list_all is_digit (show_int n) \<and> digit_value (show_int n) = nat n"
      using h show_int_positive [of n] by (simp add: render_source_def page_label_def)
  qed
  from zero le absent gt safe show ?thesis by blast
qed

theorem page_zero_unset_witness:
  "view_title (render_source (\<lambda>x. []) 0
      \<lparr>src_filename = str ''a.pdf'', src_page = Val (Finite 0), src_text = str ''t''\<rparr>) =
     [TextChild (str ''a.pdf''), TextChild (str '' ''), NoChild] \<and>
   view_title (render_source (\<lambda>x. []) 1
      \<lparr>src_filename = str ''a.pdf'', src_page = Val (Finite (- 3)), src_text = str ''t''\<rparr>) =
     [TextChild (str ''a.pdf''), TextChild (str '' ''), NoChild] \<and>
   view_title (render_source (\<lambda>x. []) 2
      \<lparr>src_filename = str ''a.pdf'', src_page = Val (Finite 12), src_text = str ''t''\<rparr>) =
     [TextChild (str ''a.pdf''), TextChild (str '' ''), TextChild (str ''(Page 12)'')]"
proof -
  have neg: "le_zero (Finite (- 3))" and pos: "(0::int) < 12 \<and> (12::int) \<le> 2 ^ 53 - 1"
    by (simp_all add: le_zero_def)
  have twelve: "Finite 12 = Finite (of_int 12)"
    by simp
  show ?thesis
    using neg pos
      page_zero_unset [of "\<lambda>x. []" 0
        "\<lparr>src_filename = str ''a.pdf'', src_page = Val (Finite 0), src_text = str ''t''\<rparr>"]
      page_zero_unset [of "\<lambda>x. []" 1
        "\<lparr>src_filename = str ''a.pdf'', src_page = Val (Finite (- 3)), src_text = str ''t''\<rparr>"
        "Finite (- 3)"]
      page_zero_unset [of "\<lambda>x. []" 2
        "\<lparr>src_filename = str ''a.pdf'', src_page = Val (Finite 12), src_text = str ''t''\<rparr>"
        _ 12]
    unfolding twelve
    by (simp add: show_int_def show_nat.simps str_def)
qed

section \<open>Properties that involve the backend\<close>

subsection \<open>Search\<close>

lemma length_top_k: "length (top_k score k xs) = min k (length xs)"
  by (simp add: top_k_def min.commute)

lemma sorted_top_k: "sorted_wrt (\<lambda>a b. score a \<ge> score b) (top_k score k xs)"
proof -
  have "sorted (map (\<lambda>x. - score x) (sort_key (\<lambda>x. - score x) xs))"
    by (rule sorted_sort_key)
  then have "sorted_wrt (\<lambda>a b. score a \<ge> score b) (sort_key (\<lambda>x. - score x) xs)"
    by (simp add: sorted_map)
  then show ?thesis
    unfolding top_k_def by (rule sorted_wrt_take)
qed

lemma top_k_stable:
  "prefix (filter (\<lambda>x. score x = s) (top_k score k xs)) (filter (\<lambda>x. score x = s) xs)"
proof -
  have "filter (\<lambda>x. - score x = - s) (sort_key (\<lambda>x. - score x) xs) =
      filter (\<lambda>x. - score x = - s) xs"
    by (rule sort_key_stable)
  then have "filter (\<lambda>x. score x = s) (sort_key (\<lambda>x. - score x) xs) = filter (\<lambda>x. score x = s) xs"
    by simp
  moreover have "prefix (filter (\<lambda>x. score x = s) (take k (sort_key (\<lambda>x. - score x) xs)))
      (filter (\<lambda>x. score x = s) (sort_key (\<lambda>x. - score x) xs))"
    by (intro filter_mono_prefix take_is_prefix)
  ultimately show ?thesis
    by (simp add: top_k_def)
qed

text \<open>
  Claim C1. For every query vector and every index state, \<^verbatim>\<open>search(q, k)\<close> returns
  at most \<open>k\<close> results (all entries when there are fewer), sorted by descending
  similarity score; results of equal score keep the insertion order of the index; on the
  empty index it returns the empty sequence.
\<close>

theorem search_top_k_sorted_stable:
  "length (search sim idx q k) \<le> k \<and>
   length (search sim idx q k) = min k (length idx) \<and>
   sorted_wrt (\<lambda>a b. snd a \<ge> snd b) (search sim idx q k) \<and>
   (\<forall>s. prefix (map fst (filter (\<lambda>r. snd r = s) (search sim idx q k)))
          (map chunk_id (filter (\<lambda>c. sim q (vector c) = s) idx))) \<and>
   search sim [] q k = []"
proof -
  let ?score = "\<lambda>c. sim q (vector c)"
  let ?pair = "\<lambda>c. (chunk_id c, ?score c)"
  have len: "length (search sim idx q k) = min k (length idx)"
    by (simp add: search_def length_top_k)
  have srt: "sorted_wrt (\<lambda>a b. snd a \<ge> snd b) (search sim idx q k)"
    using sorted_top_k [of ?score k idx] by (simp add: search_def sorted_wrt_map)
  have tie: "prefix (map fst (filter (\<lambda>r. snd r = s) (search sim idx q k)))
      (map chunk_id (filter (\<lambda>c. ?score c = s) idx))" for s
  proof -
    have "map fst (filter (\<lambda>r. snd r = s) (search sim idx q k)) =
        map chunk_id (filter (\<lambda>c. ?score c = s) (top_k ?score k idx))"
      by (simp add: search_def filter_map comp_def)
    then show ?thesis
      using top_k_stable [of ?score s k idx] by (simp add: map_mono_prefix)
  qed
  have emp: "search sim [] q k = []"
    by (simp add: search_def top_k_def)
  from len srt tie emp show ?thesis by simp
qed

lemma search_example:
  "search (similarity example_orc) (index example_corpus) 5 2 = [(2, - 1), (0, - 2)]"
  by (simp add: search_def top_k_def example_orc_def example_corpus_def)

subsection \<open>Upload\<close>

lemma upload_batch_report:
  "upload_batch pl st files = (st', r) \<Longrightarrow>
     uploaded r = int (length (filter (\<lambda>f. \<not> isl (ingest_file pl f)) files)) \<and>
     failed r = int (length (filter (\<lambda>f. isl (ingest_file pl f)) files)) \<and>
     failed_files r =
       map (\<lambda>f. \<lparr>ff_filename = file_name f, ff_error = describe pl (projl (ingest_file pl f))\<rparr>)
         (filter (\<lambda>f. isl (ingest_file pl f)) files) \<and>
     map reg_filename (registry st') =
       map reg_filename (registry st) @
       map file_name (filter (\<lambda>f. \<not> isl (ingest_file pl f)) files)"
proof (induction files arbitrary: st st' r)
  case Nil
  then show ?case by auto
next
  case (Cons f fs)
  show ?case
  proof (cases "ingest_file pl f")
    case (Inl e)
    obtain st1 r1 where rest: "upload_batch pl st fs = (st1, r1)"
      by (cases "upload_batch pl st fs")
    with Inl Cons.prems have "st' = st1"
      and "r = r1\<lparr>failed := failed r1 + 1,
                failed_files := \<lparr>ff_filename = file_name f, ff_error = describe pl e\<rparr> # failed_files r1\<rparr>"
      by simp_all
    with Cons.IH [OF rest] Inl show ?thesis by simp
  next
    case (Inr embedded)
    obtain st1 r1 where rest: "upload_batch pl (commit st f embedded) fs = (st1, r1)"
      by (cases "upload_batch pl (commit st f embedded) fs")
    with Inr Cons.prems have "st' = st1" and "r = r1\<lparr>uploaded := uploaded r1 + 1\<rparr>"
      by simp_all
    moreover have "map reg_filename (registry (commit st f embedded)) =
        map reg_filename (registry st) @ [file_name f]"
      by (simp add: commit_def Let_def)
    ultimately show ?thesis
      using Cons.IH [OF rest] Inr by simp
  qed
qed

lemma upload_batch_total:
  assumes "upload_batch pl st files = (st', r)"
  shows "uploaded r + failed r = int (length files)" and "failed r = int (length (failed_files r))"
proof -
  have "length (filter (\<lambda>f. \<not> isl (ingest_file pl f)) files) +
      length (filter (\<lambda>f. isl (ingest_file pl f)) files) = length files"
    using sum_length_filter_compl [of "\<lambda>f. isl (ingest_file pl f)" files] by simp
  then show "uploaded r + failed r = int (length files)"
    using upload_batch_report [OF assms] by linarith
  show "failed r = int (length (failed_files r))"
    using upload_batch_report [OF assms] by simp
qed

lemma upload_notices:
  "upload_reply srv files = Inr r \<Longrightarrow> files \<noteq> [] \<Longrightarrow>
     filter is_notice (snd (handleFileUpload st srv files)) = upload_toasts r"
  by (auto simp: handleFileUpload_def fetchDocuments_done_def upload_toasts_def is_notice_def
      failed_toast_def comp_def split: sum.splits prod.splits)

text \<open>
  A rejected upload whose detail lists the failed files is reported the same way, one
  error notice per entry.
\<close>

lemma upload_rejected_notices:
  assumes "upload_reply srv files = Inl (DetailFiles ffs)" and "files \<noteq> []"
  shows "filter is_notice (snd (handleFileUpload st srv files)) =
     map (\<lambda>f. ToastError (ff_filename f @ str '': '' @ ff_error f)) ffs"
  using assms
  by (simp add: handleFileUpload_def failure_toasts_def is_notice_def failed_toast_def comp_def)

lemma upload_example:
  "snd (upload_batch example_pipeline empty_corpus example_files) =
     \<lparr>uploaded = 1, failed = 1,
      failed_files = [\<lparr>ff_filename = str ''bad.txt'', ff_error = str ''rejected''\<rparr>]\<rparr>"
  by (simp add: example_pipeline_def example_files_def empty_corpus_def ingest_file_def commit_def
      fresh_def str_def Let_def)

text \<open>
  Claim C2. For every upload batch the Upload operation returns a report
  \<^verbatim>\<open>{uploaded, failed, failed_files}\<close> that accounts for every file: the files that
  fail are listed with their error next to the count of those that succeed, and the
  succeeding files are registered whatever the others did. On that report the client
  shows one success notice when \<open>uploaded > 0\<close> and one error notice per entry of
  \<^verbatim>\<open>failed_files\<close>.
\<close>

theorem upload_report_and_notices:
  assumes "upload_batch pl corpus files = (corpus', r)"
    and "upload_reply srv files = Inr r"
  shows "uploaded r + failed r = int (length files) \<and>
         uploaded r = int (length (filter (\<lambda>f. \<not> isl (ingest_file pl f)) files)) \<and>
         failed r = int (length (failed_files r)) \<and>
         failed_files r =
           map (\<lambda>f. \<lparr>ff_filename = file_name f,
                      ff_error = describe pl (projl (ingest_file pl f))\<rparr>)
             (filter (\<lambda>f. isl (ingest_file pl f)) files) \<and>
         map reg_filename (registry corpus') =
           map reg_filename (registry corpus) @
           map file_name (filter (\<lambda>f. \<not> isl (ingest_file pl f)) files) \<and>
         filter is_notice (snd (handleFileUpload st srv files)) =
           (if uploaded r > 0
            then [ToastSuccess (show_int (uploaded r) @ str '' document(s) uploaded successfully'')]
            else []) @
           map (\<lambda>f. ToastError (ff_filename f @ str '': '' @ ff_error f)) (failed_files r)"
proof -
  note report = upload_batch_report [OF assms(1)]
  note total = upload_batch_total [OF assms(1)]
  have "filter is_notice (snd (handleFileUpload st srv files)) =
      (if uploaded r > 0
       then [ToastSuccess (show_int (uploaded r) @ str '' document(s) uploaded successfully'')]
       else []) @
      map (\<lambda>f. ToastError (ff_filename f @ str '': '' @ ff_error f)) (failed_files r)"
  proof (cases "files = []")
    case True
    with assms(1) show ?thesis
      by (auto simp: handleFileUpload_def)
  next
    case False
    have "failed r > 0 \<or> failed_files r = []"
      using total(2) by (cases "failed_files r") simp_all
    then show ?thesis
      using upload_notices [OF assms(2) False, of st]
      by (auto simp: upload_toasts_def failed_toast_def)
  qed
  with report total show ?thesis by simp
qed

theorem upload_report_and_notices_witness:
  "uploaded (snd (upload_batch example_pipeline empty_corpus example_files)) = 1 \<and>
   failed (snd (upload_batch example_pipeline empty_corpus example_files)) = 1 \<and>
   filter is_notice
     (snd (handleFileUpload example_state (example_server example_orc empty_corpus) example_files)) =
     [ToastSuccess (str ''1 document(s) uploaded successfully''),
      ToastError (str ''bad.txt: rejected'')]"
proof -
  have reply: "upload_reply (example_server example_orc empty_corpus) example_files =
      Inr (snd (upload_batch example_pipeline empty_corpus example_files))"
    by (simp add: example_server_def)
  have batch: "upload_batch example_pipeline empty_corpus example_files =
      (fst (upload_batch example_pipeline empty_corpus example_files),
       snd (upload_batch example_pipeline empty_corpus example_files))"
    by simp
  show ?thesis
    using upload_report_and_notices [OF batch reply, of example_state]
    by (simp add: upload_example show_int_def show_nat.simps str_def)
qed

subsection \<open>Ask\<close>

lemma ask_failure:
  assumes "ask orc st q = (Inl e, st', calls)"
  shows "st' = st \<and> (e = EmbeddingError \<or> e = GenerationError)"
  using assms by (auto simp: ask_def Let_def split: option.splits if_splits)

lemma handleAskQuestion_failure:
  assumes "chat_reply srv (question st) = Inl e"
  shows "handleAskQuestion st srv =
     (if trim (question st) = [] then (st, [PreventDefault])
      else (st\<lparr>isAsking := False\<rparr>,
            [PreventDefault, PostChat (question st), ToastError (str ''Failed to get answer''),
             ConsoleError (str ''Chat error:'')]))"
  using assms by (simp add: handleAskQuestion_def)

text \<open>
  Claim C4. If the Ask operation fails for a question, the failure is a typed error
  (the embedding or the generation failure of the taxonomy), the corpus is unchanged, so
  no ChatRecord is written, and in the client the current answer and the chat history
  stay as they were: the state after the handler differs from the state before at most
  in the in-flight flag, which is cleared once the request was made. The client shows
  one error notice and does not fetch the history.
\<close>

theorem failed_ask_leaves_no_trace:
  assumes "ask orc corpus (question st) = (Inl e, corpus', calls)"
    and "chat_reply srv (question st) = Inl e"
  shows "(e = EmbeddingError \<or> e = GenerationError) \<and>
         corpus' = corpus \<and> ledger corpus' = ledger corpus \<and>
         currentAnswer (fst (handleAskQuestion st srv)) = currentAnswer st \<and>
         chatHistory (fst (handleAskQuestion st srv)) = chatHistory st \<and>
         (fst (handleAskQuestion st srv))\<lparr>isAsking := False\<rparr> = st\<lparr>isAsking := False\<rparr> \<and>
         GetChatHistory \<notin> set (snd (handleAskQuestion st srv)) \<and>
         (trim (question st) \<noteq> [] \<longrightarrow>
            handleAskQuestion st srv =
              (st\<lparr>isAsking := False\<rparr>,
               [PreventDefault, PostChat (question st),
                ToastError (str ''Failed to get answer''), ConsoleError (str ''Chat error:'')]))"
  using ask_failure [OF assms(1)] handleAskQuestion_failure [OF assms(2)]
  by simp

theorem failed_ask_leaves_no_trace_witness:
  "ask mute_orc example_corpus (question example_state) =
     (Inl GenerationError, example_corpus,
      [Embed (str ''hi''), Search, Generate (str ''hi'') (str ''defg'')]) \<and>
   handleAskQuestion example_state (example_server mute_orc example_corpus) =
     (example_state\<lparr>isAsking := False\<rparr>,
      [PreventDefault, PostChat (str ''hi''), ToastError (str ''Failed to get answer''),
       ConsoleError (str ''Chat error:'')])"
proof -
  have failing: "ask mute_orc example_corpus (question example_state) =
      (Inl GenerationError, example_corpus,
       [Embed (str ''hi''), Search, Generate (str ''hi'') (str ''defg'')])"
    by (simp add: ask_def retrieve_def top_k_def mute_orc_def example_orc_def example_corpus_def
        example_state_def assemble_def filename_of_def str_def Let_def)
  have reply: "chat_reply (example_server mute_orc example_corpus) (question example_state) =
      Inl GenerationError"
    by (simp add: example_server_def failing)
  have asked: "trim (question example_state) \<noteq> []"
    by (simp add: example_state_def trim_def js_whitespace_def str_def)
  show ?thesis
    using failed_ask_leaves_no_trace [OF failing reply] failing asked
    by (simp add: example_state_def)
qed

end
